theory Spec2Isabelle
  imports Main
begin

section \<open>The UniUnity backend and admin store\<close>

text \<open>
  The repository holds several versions of one Express/Mongoose server and one client
  store. Every handler is embedded per file: a definition ending in \<open>_server_js\<close>
  follows the first program of \<^verbatim>\<open>src/backend/server.js\<close>, one ending in
  \<open>_server_js_2\<close> the second program of that file, and \<open>_part_000\<close>,
  \<open>_part_001\<close>, \<open>_part_002\<close> the files of \<^verbatim>\<open>src/unnamed\<close>.

  Conventions of the embedding:
  \<^item> a field of a request body or of a document that may be \<open>undefined\<close> is an
    \<open>option\<close>; fields carry the type their Mongoose schema (or the TypeScript type of
    the client) declares;
  \<^item> the database is reachable and its operations succeed; a collection is part of an
    explicit \<open>store\<close> that every handler receives and returns; the \<open>:id\<close> of a
    route is a well-formed ObjectId;
  \<^item> what the environment chooses (the salt of a hash, the fresh \<open>_id\<close> of a new
    document, the clock) is an argument of the handler;
  \<^item> an exception is the left injection of a sum, and a handler's \<open>catch\<close> is the
    branch that consumes it.
\<close>

subsection \<open>JavaScript truthiness on optional strings\<close>

text \<open>\<^verbatim>\<open>!x\<close> for a value that is \<open>undefined\<close> or a string: only a non-empty string is truthy.\<close>

definition truthy :: "string option \<Rightarrow> bool" where
  "truthy x = (case x of None \<Rightarrow> False | Some v \<Rightarrow> v \<noteq> [])"

text \<open>\<^verbatim>\<open>x || ''\<close>.\<close>

definition or_empty :: "string option \<Rightarrow> string" where
  "or_empty x = (case x of None \<Rightarrow> [] | Some v \<Rightarrow> v)"

subsection \<open>Password hasher\<close>

text \<open>
  The \<^verbatim>\<open>bcrypt\<close> package is not part of the repository. Its two functions are a
  parameter of every handler that uses them: \<open>hash_fn\<close> maps a password and the salt
  drawn for this call to the stored hash, \<open>compare_fn\<close> verifies a password against a
  hash. The wrappers below add what the package does with a missing argument: it rejects.
\<close>

record bcrypt =
  hash_fn :: "string \<Rightarrow> nat \<Rightarrow> string"
  compare_fn :: "string \<Rightarrow> string \<Rightarrow> bool"

datatype exn = Error string

definition bcrypt_hash :: "bcrypt \<Rightarrow> string option \<Rightarrow> nat \<Rightarrow> exn + string" where
  "bcrypt_hash B data salt =
     (case data of
        None \<Rightarrow> Inl (Error ''data and salt arguments required'')
      | Some d \<Rightarrow> Inr (hash_fn B d salt))"

definition bcrypt_compare :: "bcrypt \<Rightarrow> string option \<Rightarrow> string option \<Rightarrow> exn + bool" where
  "bcrypt_compare B data h =
     (case (data, h) of
        (Some d, Some h') \<Rightarrow> Inr (compare_fn B d h')
      | _ \<Rightarrow> Inl (Error ''data and hash arguments required''))"

text \<open>The one property of the package the results rely on: a hash verifies its own password.\<close>

definition bcrypt_sound :: "bcrypt \<Rightarrow> bool" where
  "bcrypt_sound B = (\<forall>p salt. compare_fn B p (hash_fn B p salt))"

text \<open>
  A small salted hasher for concrete evaluation: the hash is the salt in unary, a
  separator and the password; verification strips the salt.
\<close>

definition plain_bcrypt :: bcrypt where
  "plain_bcrypt =
     \<lparr> hash_fn = (\<lambda>p salt. replicate salt (CHR ''#'') @ CHR ''$'' # p),
       compare_fn = (\<lambda>p h. dropWhile (\<lambda>c. c = CHR ''#'') h = CHR ''$'' # p) \<rparr>"

subsection \<open>Persistence layer\<close>

type_synonym object_id = nat

record admin =
  email :: string
  password :: string

record blog =
  title :: "string option"
  content :: "string option"
  seoTitle :: "string option"
  seoDescription :: "string option"
  createdAt :: nat
  status :: string

text \<open>
  The nested objects of the config schema. \<open>seo.title\<close>, \<open>homepageAd.text\<close> and
  \<open>homepageAd.image\<close> carry the name of their object. \<open>ogImage\<close> is declared by
  the schema of part_001 only.
\<close>

record banner_obj =
  heading :: "string option"
  subtext :: "string option"

record seo_obj =
  seo_title :: "string option"
  description :: "string option"
  ogImage :: "string option"

record ad_obj =
  ad_text :: "string option"
  ad_image :: "string option"

record site_config =
  title :: "string option"
  favicon :: "string option"
  banner :: "banner_obj option"
  seo :: "seo_obj option"
  homepageAd :: "ad_obj option"
  adminUsername :: "string option"
  adminPassword :: "string option"

text \<open>
  The three collections. \<open>Blog\<close> is keyed by \<open>_id\<close>, which MongoDB keeps unique.
  \<open>Config\<close> holds at most one document: every write goes through an upsert on the
  empty filter.
\<close>

record store =
  Admin :: "admin list"
  Blog :: "object_id \<rightharpoonup> blog"
  Config :: "site_config option"

definition empty_store :: store where
  "empty_store = \<lparr> Admin = [], Blog = Map.empty, Config = None \<rparr>"

text \<open>The calls a handler makes on the \<open>Admin\<close> collection, in order.\<close>

datatype db_call =
    Admin_findOne "string option"

definition countDocuments_email :: "store \<Rightarrow> string \<Rightarrow> nat" where
  "countDocuments_email s e = length (filter (\<lambda>a. email a = e) (Admin s))"

text \<open>
  \<^verbatim>\<open>Admin.findOne({ email: username })\<close>: the first document with that email. Every
  document of the collection has an email, so the filter for an undefined value
  matches none.
\<close>

definition Admin_findOne_email :: "store \<Rightarrow> string option \<Rightarrow> admin option" where
  "Admin_findOne_email s u = find (\<lambda>a. Some (email a) = u) (Admin s)"

subsection \<open>HTTP responses\<close>

text \<open>
  A response is its status and its JSON body: \<^verbatim>\<open>{ success, message }\<close>,
  \<^verbatim>\<open>{ message }\<close>, \<^verbatim>\<open>{ error }\<close>, a stored post with its \<open>_id\<close>, a config document,
  or \<^verbatim>\<open>{}\<close>.
\<close>

datatype payload =
    AuthJson bool "string option"
  | MessageJson string
  | ErrorJson string
  | BlogJson object_id blog
  | ConfigJson site_config
  | EmptyObject

type_synonym response = "nat \<times> payload"

subsection \<open>Admin seed and Auth Service\<close>

text \<open>server.js 38-50, part_002 49-61 (the same statements).\<close>

definition seed_admin :: "bcrypt \<Rightarrow> nat \<Rightarrow> store \<Rightarrow> store" where
  "seed_admin B salt s =
     (let adminExists = countDocuments_email s ''admin'' in
      if adminExists = 0 then
        (case bcrypt_hash B (Some ''UniUnity2025!'') salt of
           Inl e \<Rightarrow> s
         | Inr hashedPassword \<Rightarrow>
             s\<lparr>Admin := Admin s @ [\<lparr> email = ''admin'', admin.password = hashedPassword \<rparr>]\<rparr>)
      else s)"

record auth_body =
  username :: "string option"
  password :: "string option"

text \<open>server.js 52-64: no check of the body before the lookup.\<close>

definition auth_server_js :: "bcrypt \<Rightarrow> store \<Rightarrow> auth_body \<Rightarrow> response \<times> db_call list" where
  "auth_server_js B s b =
     (case Admin_findOne_email s (username b) of
        None \<Rightarrow> ((401, AuthJson False (Some ''Invalid credentials'')),
                  [Admin_findOne (username b)])
      | Some a \<Rightarrow>
          (case bcrypt_compare B (auth_body.password b) (Some (admin.password a)) of
             Inl e \<Rightarrow> ((500, AuthJson False (Some ''Authentication error'')),
                       [Admin_findOne (username b)])
           | Inr ok \<Rightarrow>
               if ok then ((200, AuthJson True None), [Admin_findOne (username b)])
               else ((401, AuthJson False (Some ''Invalid credentials'')),
                     [Admin_findOne (username b)])))"

text \<open>part_002 64-81: the body is checked first.\<close>

definition auth_part_002 :: "bcrypt \<Rightarrow> store \<Rightarrow> auth_body \<Rightarrow> response \<times> db_call list" where
  "auth_part_002 B s b =
     (if \<not> truthy (username b) \<or> \<not> truthy (auth_body.password b) then
        ((400, AuthJson False (Some ''Username and password are required'')), [])
      else
        (case Admin_findOne_email s (username b) of
           None \<Rightarrow> ((401, AuthJson False (Some ''Invalid credentials'')),
                     [Admin_findOne (username b)])
         | Some a \<Rightarrow>
             (case bcrypt_compare B (auth_body.password b) (Some (admin.password a)) of
                Inl e \<Rightarrow> ((500, AuthJson False (Some ''Server error during authentication'')),
                          [Admin_findOne (username b)])
              | Inr ok \<Rightarrow>
                  if ok then ((200, AuthJson True None), [Admin_findOne (username b)])
                  else ((401, AuthJson False (Some ''Invalid credentials'')),
                        [Admin_findOne (username b)]))))"

subsection \<open>Content Service\<close>

record blog_body =
  title :: "string option"
  content :: "string option"
  seoTitle :: "string option"
  seoDescription :: "string option"

text \<open>
  \<^verbatim>\<open>new Blog({ title, content, seoTitle, seoDescription })\<close>: the four fields as given,
  and the two schema defaults, \<^verbatim>\<open>Date.now\<close> and \<^verbatim>\<open>'published'\<close>.
\<close>

definition new_Blog :: "nat \<Rightarrow> blog_body \<Rightarrow> blog" where
  "new_Blog now b =
     \<lparr> blog.title = blog_body.title b, blog.content = blog_body.content b,
       blog.seoTitle = blog_body.seoTitle b, blog.seoDescription = blog_body.seoDescription b,
       createdAt = now, status = ''published'' \<rparr>"

text \<open>\<^verbatim>\<open>blog.save()\<close> inserts under the document's \<open>_id\<close>; MongoDB rejects a duplicate key.\<close>

definition Blog_save :: "store \<Rightarrow> object_id \<Rightarrow> blog \<Rightarrow> exn + store" where
  "Blog_save s oid d =
     (case Blog s oid of
        Some _ \<Rightarrow> Inl (Error ''E11000 duplicate key error'')
      | None \<Rightarrow> Inr (s\<lparr>Blog := (Blog s)(oid \<mapsto> d)\<rparr>))"

text \<open>\<^verbatim>\<open>Blog.findByIdAndDelete(id)\<close>: the removed document, or null.\<close>

definition Blog_findByIdAndDelete :: "store \<Rightarrow> object_id \<Rightarrow> blog option \<times> store" where
  "Blog_findByIdAndDelete s oid = (Blog s oid, s\<lparr>Blog := (Blog s)(oid := None)\<rparr>)"

text \<open>server.js 96-105: no validation, the default status 200.\<close>

definition post_blogs_server_js :: "nat \<Rightarrow> object_id \<Rightarrow> store \<Rightarrow> blog_body \<Rightarrow> response \<times> store" where
  "post_blogs_server_js now oid s b =
     (let d = new_Blog now b in
      case Blog_save s oid d of
        Inl e \<Rightarrow> ((500, ErrorJson ''Failed to create blog''), s)
      | Inr s' \<Rightarrow> ((200, BlogJson oid d), s'))"

text \<open>part_002 117-130.\<close>

definition post_blogs_part_002 :: "nat \<Rightarrow> object_id \<Rightarrow> store \<Rightarrow> blog_body \<Rightarrow> response \<times> store" where
  "post_blogs_part_002 now oid s b =
     (if \<not> truthy (blog_body.title b) \<or> \<not> truthy (blog_body.content b) then
        ((400, MessageJson ''Title and content are required''), s)
      else
        (let d = new_Blog now b in
         case Blog_save s oid d of
           Inl e \<Rightarrow> ((500, MessageJson ''Failed to create blog''), s)
         | Inr s' \<Rightarrow> ((201, BlogJson oid d), s')))"

text \<open>server.js 119-128 (and, with \<open>message\<close> for \<open>error\<close>, server.js 291-300 and part_002 148-158).\<close>

definition delete_blog_server_js :: "store \<Rightarrow> object_id \<Rightarrow> response \<times> store" where
  "delete_blog_server_js s oid =
     (let (result, s') = Blog_findByIdAndDelete s oid in
      if result = None then ((404, ErrorJson ''Blog not found''), s')
      else ((200, MessageJson ''Blog deleted''), s'))"

text \<open>part_000 92: the result of the deletion is not read.\<close>

definition delete_blog_part_000 :: "store \<Rightarrow> object_id \<Rightarrow> response \<times> store" where
  "delete_blog_part_000 s oid =
     (let (result, s') = Blog_findByIdAndDelete s oid in
      ((200, MessageJson ''Blog deleted''), s'))"

subsection \<open>Config Service\<close>

record config_body = site_config +
  currentPassword :: "string option"

text \<open>
  \<^verbatim>\<open>Config.findOneAndUpdate({}, update, { upsert: true, new: true })\<close>. Mongoose turns
  the update into a \<^verbatim>\<open>$set\<close> of its top-level keys: a key whose value is
  \<open>undefined\<close> is left out of the update (Mongoose 6 and later), a key that the schema
  does not declare is dropped (\<open>currentPassword\<close>, \<open>seo.ogImage\<close>), and every other key
  replaces the stored value as a whole. With no document the upsert creates one from
  the update alone. The result is the document after the update.
\<close>

definition assign :: "'a option \<Rightarrow> 'a option \<Rightarrow> 'a option" where
  "assign new old = (case new of None \<Rightarrow> old | Some v \<Rightarrow> Some v)"

definition no_fields :: site_config where
  "no_fields = \<lparr> site_config.title = None, favicon = None, banner = None, seo = None,
       homepageAd = None, adminUsername = None, adminPassword = None \<rparr>"

definition current_fields :: "store \<Rightarrow> site_config" where
  "current_fields s = (case Config s of None \<Rightarrow> no_fields | Some c \<Rightarrow> c)"

definition Config_findOneAndUpdate :: "store \<Rightarrow> site_config \<Rightarrow> site_config \<times> store" where
  "Config_findOneAndUpdate s u =
     (let old = current_fields s;
          new = \<lparr> site_config.title = assign (site_config.title u) (site_config.title old),
                  favicon = assign (favicon u) (favicon old),
                  banner = assign (banner u) (banner old),
                  seo = assign (map_option (\<lambda>x. x\<lparr>ogImage := None\<rparr>) (seo u)) (seo old),
                  homepageAd = assign (homepageAd u) (homepageAd old),
                  adminUsername = assign (adminUsername u) (adminUsername old),
                  adminPassword = assign (adminPassword u) (adminPassword old) \<rparr>
      in (new, s\<lparr>Config := Some new\<rparr>))"

text \<open>
  The update object \<^verbatim>\<open>{ ...configData, adminUsername, adminPassword: pw }\<close> of a
  request body.
\<close>

definition update_of :: "config_body \<Rightarrow> string option \<Rightarrow> site_config" where
  "update_of b pw =
     \<lparr> site_config.title = site_config.title b, favicon = favicon b, banner = banner b,
       seo = seo b, homepageAd = homepageAd b, adminUsername = adminUsername b,
       adminPassword = pw \<rparr>"

text \<open>server.js 139-146 (and server.js 253-260): \<^verbatim>\<open>res.json(config || {})\<close>.\<close>

definition get_config_server_js :: "store \<Rightarrow> response" where
  "get_config_server_js s =
     (case Config s of None \<Rightarrow> (200, EmptyObject) | Some c \<Rightarrow> (200, ConfigJson c))"

text \<open>part_002 161-169.\<close>

definition get_config_part_002 :: "store \<Rightarrow> response" where
  "get_config_part_002 s =
     (case Config s of None \<Rightarrow> (200, EmptyObject) | Some c \<Rightarrow> (200, ConfigJson c))"

text \<open>part_001 85-91 and 45-48.\<close>

definition defaultConfig_part_001 :: site_config where
  "defaultConfig_part_001 =
     \<lparr> site_config.title = Some ''UniUnity.space'',
       favicon = Some ''/favicon.ico'',
       banner = Some \<lparr> heading = Some ''Future-Proof Growth'', subtext = Some ''AI solutions'' \<rparr>,
       seo = Some \<lparr> seo_title = Some ''UniUnity - Tech Solutions'',
                    description = Some ''AI and development services'',
                    ogImage = Some ''https://example.com/og.jpg'' \<rparr>,
       homepageAd = Some \<lparr> ad_text = Some ''Transform with AI'',
                           ad_image = Some ''https://example.com/ad.jpg'' \<rparr>,
       adminUsername = None, adminPassword = None \<rparr>"

definition get_config_part_001 :: "store \<Rightarrow> response" where
  "get_config_part_001 s =
     (case Config s of
        None \<Rightarrow> (200, ConfigJson defaultConfig_part_001)
      | Some c \<Rightarrow> (200, ConfigJson c))"

text \<open>server.js 148-160: the password is hashed on every update.\<close>

definition post_config_server_js :: "bcrypt \<Rightarrow> nat \<Rightarrow> store \<Rightarrow> config_body \<Rightarrow> response \<times> store" where
  "post_config_server_js B salt s b =
     (case bcrypt_hash B (Some (or_empty (adminPassword b))) salt of
        Inl e \<Rightarrow> ((500, ErrorJson ''Failed to update config''), s)
      | Inr h \<Rightarrow>
          (let (config, s') = Config_findOneAndUpdate s (update_of b (Some h))
           in ((200, ConfigJson config), s')))"

text \<open>part_002 171-189.\<close>

definition post_config_part_002 :: "bcrypt \<Rightarrow> nat \<Rightarrow> store \<Rightarrow> config_body \<Rightarrow> response \<times> store" where
  "post_config_part_002 B salt s b =
     (let currentConfig = Config s;
          checked =
            (case currentConfig of
               Some c \<Rightarrow>
                 if truthy (adminPassword b) then
                   bcrypt_compare B (Some (or_empty (currentPassword b)))
                     (Some (or_empty (adminPassword c)))
                 else Inr True
             | None \<Rightarrow> Inr True)
      in case checked of
           Inl e \<Rightarrow> ((500, MessageJson ''Failed to update config''), s)
         | Inr isValid \<Rightarrow>
             if \<not> isValid then ((401, MessageJson ''Current password is incorrect''), s)
             else
               (case (if truthy (adminPassword b)
                      then map_sum id Some (bcrypt_hash B (adminPassword b) salt)
                      else Inr (case currentConfig of None \<Rightarrow> None | Some c \<Rightarrow> adminPassword c)) of
                  Inl e \<Rightarrow> ((500, MessageJson ''Failed to update config''), s)
                | Inr pw \<Rightarrow>
                    (let (updatedConfig, s') = Config_findOneAndUpdate s (update_of b pw)
                     in ((200, ConfigJson updatedConfig), s'))))"


subsection \<open>Client State Store\<close>

text \<open>
  The store keeps plain JavaScript objects: the config it merges by object spread, and
  the posts as the server sent them. An object is a map from property names to values;
  a property may hold \<open>undefined\<close>.
\<close>

datatype jsval =
    JUndefined
  | JNull
  | JBool bool
  | JNum int
  | JStr string
  | JArr "jsval list"
  | JObj "(string \<times> jsval) list"

type_synonym js_object = "string \<rightharpoonup> jsval"

text \<open>
  An axios call settles: it resolves with the response body, or rejects (no answer, or
  a status outside 2xx).
\<close>

datatype promise = Resolved jsval | Rejected string

record admin_state =
  isAuthenticated :: bool
  config :: js_object
  blogPosts :: "js_object list"
  loading :: bool
  error :: "string option"

text \<open>
  part_003 818-829. \<open>axios_post\<close> is the server as the client sees it: the outcome of
  \<^verbatim>\<open>POST /api/config\<close> for a request body.
\<close>

definition updateConfig :: "(js_object \<Rightarrow> promise) \<Rightarrow> admin_state \<Rightarrow> js_object \<Rightarrow> admin_state" where
  "updateConfig axios_post st cfg =
     (let st1 = st\<lparr>loading := True, error := None\<rparr>;
          currentConfig = config st1;
          updatedConfig = currentConfig ++ cfg
      in case axios_post updatedConfig of
           Resolved response \<Rightarrow> st1\<lparr>config := updatedConfig, loading := False\<rparr>
         | Rejected err \<Rightarrow> st1\<lparr>error := Some ''Failed to update config'', loading := False\<rparr>)"

text \<open>\<^verbatim>\<open>p.id !== id\<close> for a string \<open>id\<close>: strict inequality, true also when \<open>p\<close> has no such property.\<close>

definition id_differs :: "string \<Rightarrow> js_object \<Rightarrow> bool" where
  "id_differs i p = (case p ''id'' of Some (JStr v) \<Rightarrow> v \<noteq> i | _ \<Rightarrow> True)"

text \<open>part_003 863-875. \<open>axios_delete\<close> is the outcome of \<^verbatim>\<open>DELETE /api/blogs/:id\<close>.\<close>

definition deleteBlogPost :: "(string \<Rightarrow> promise) \<Rightarrow> admin_state \<Rightarrow> string \<Rightarrow> admin_state" where
  "deleteBlogPost axios_delete st i =
     (let st1 = st\<lparr>loading := True, error := None\<rparr>
      in case axios_delete i of
           Resolved response \<Rightarrow>
             st1\<lparr>blogPosts := filter (id_differs i) (blogPosts st1), loading := False\<rparr>
         | Rejected err \<Rightarrow> st1\<lparr>error := Some ''Failed to delete blog post'', loading := False\<rparr>)"

subsection \<open>Requests and states used in the examples\<close>

definition admin_login :: "string \<Rightarrow> auth_body" where
  "admin_login pw = \<lparr> username = Some ''admin'', auth_body.password = Some pw \<rparr>"

text \<open>The body \<^verbatim>\<open>{ title: x }\<close>.\<close>

definition title_only :: "string \<Rightarrow> config_body" where
  "title_only x =
     \<lparr> site_config.title = Some x, favicon = None, banner = None, seo = None,
       homepageAd = None, adminUsername = None, adminPassword = None,
       currentPassword = None \<rparr>"

text \<open>The body \<^verbatim>\<open>{ adminPassword: new, currentPassword: cur }\<close>.\<close>

definition password_only :: "string \<Rightarrow> string option \<Rightarrow> config_body" where
  "password_only new cur =
     \<lparr> site_config.title = None, favicon = None, banner = None, seo = None,
       homepageAd = None, adminUsername = None, adminPassword = Some new,
       currentPassword = cur \<rparr>"

text \<open>The admin password hash the Config collection holds, if any.\<close>

definition stored_hash :: "store \<Rightarrow> string option" where
  "stored_hash s = (case Config s of None \<Rightarrow> None | Some c \<Rightarrow> adminPassword c)"

text \<open>A database right after the first start of the server.\<close>

definition seeded :: store where
  "seeded = seed_admin plain_bcrypt 1 empty_store"

text \<open>A database whose config document holds the hash of \<open>secret\<close> and some fields.\<close>

definition configured :: store where
  "configured =
     empty_store\<lparr>Config := Some
       \<lparr> site_config.title = Some ''Old title'', favicon = Some ''/favicon.ico'',
         banner = Some \<lparr> heading = Some ''Welcome'', subtext = None \<rparr>,
         seo = None, homepageAd = None, adminUsername = Some ''root'',
         adminPassword = Some (hash_fn plain_bcrypt ''secret'' 1) \<rparr>\<rparr>"

definition no_blog_fields :: blog_body where
  "no_blog_fields =
     \<lparr> blog_body.title = None, blog_body.content = None, blog_body.seoTitle = None,
       blog_body.seoDescription = None \<rparr>"

definition first_post :: blog_body where
  "first_post =
     \<lparr> blog_body.title = Some ''Hello'', blog_body.content = Some ''First post'',
       blog_body.seoTitle = None, blog_body.seoDescription = None \<rparr>"

definition local_state :: admin_state where
  "local_state =
     \<lparr> isAuthenticated = True,
       config = [''title'' \<mapsto> JStr ''Old title'', ''favicon'' \<mapsto> JStr ''/favicon.ico''],
       blogPosts = [[''_id'' \<mapsto> JStr ''a1'', ''title'' \<mapsto> JStr ''From Mongo''],
                    [''id'' \<mapsto> JStr ''a1'', ''title'' \<mapsto> JStr ''Local''],
                    [''id'' \<mapsto> JStr ''b2'', ''title'' \<mapsto> JStr ''Other'']],
       loading = False, error = None \<rparr>"

section \<open>Results\<close>

subsection \<open>Shared facts\<close>

lemma plain_bcrypt_sound: "bcrypt_sound plain_bcrypt"
  by (simp add: bcrypt_sound_def plain_bcrypt_def dropWhile_append3)

lemma post_config_part_002_Admin:
  "Admin (snd (post_config_part_002 B salt s b)) = Admin s"
  by (auto simp: post_config_part_002_def Config_findOneAndUpdate_def Let_def
      split: option.splits sum.splits prod.splits)


lemma auth_server_js_post_config:
  "auth_server_js B (snd (post_config_part_002 B' salt s b)) u = auth_server_js B s u"
  by (simp add: auth_server_js_def Admin_findOne_email_def post_config_part_002_Admin)

lemma auth_part_002_post_config:
  "auth_part_002 B (snd (post_config_part_002 B' salt s b)) u = auth_part_002 B s u"
  by (simp add: auth_part_002_def Admin_findOne_email_def post_config_part_002_Admin)

lemma seed_admin_empty:
  "seed_admin B salt empty_store =
     \<lparr> Admin = [\<lparr> email = ''admin'', admin.password = hash_fn B ''UniUnity2025!'' salt \<rparr>],
       Blog = Map.empty, Config = None \<rparr>"
  by (simp add: seed_admin_def empty_store_def countDocuments_email_def bcrypt_hash_def)

lemma stored_hash_findOneAndUpdate:
  "stored_hash (snd (Config_findOneAndUpdate s (update_of b pw))) =
     (case pw of None \<Rightarrow> stored_hash s | Some h \<Rightarrow> Some h)"
  by (simp add: stored_hash_def Config_findOneAndUpdate_def update_of_def assign_def Let_def
      current_fields_def no_fields_def split: option.splits)

lemma post_config_part_002_accept:
  assumes "adminPassword b = Some new" "new \<noteq> []"
    and "Config s = None \<or> (\<exists>c. Config s = Some c \<and> compare_fn B (or_empty (currentPassword b)) (or_empty (adminPassword c)))"
  shows "post_config_part_002 B salt s b =
     ((200, ConfigJson (fst (Config_findOneAndUpdate s (update_of b (Some (hash_fn B new salt)))))),
       snd (Config_findOneAndUpdate s (update_of b (Some (hash_fn B new salt)))))"
  using assms
  by (auto simp: post_config_part_002_def Let_def bcrypt_compare_def bcrypt_hash_def truthy_def
      split: prod.splits)


lemma post_config_part_002_keep:
  assumes "\<not> truthy (adminPassword b)"
  shows "post_config_part_002 B salt s b =
     ((200, ConfigJson (fst (Config_findOneAndUpdate s (update_of b (stored_hash s))))),
       snd (Config_findOneAndUpdate s (update_of b (stored_hash s))))"
  using assms
  by (auto simp: post_config_part_002_def Let_def stored_hash_def split: option.splits prod.splits)

subsection \<open>Auth Service\<close>

text \<open>
  Claim C1 on part_002 171-189 with server.js 52-64: the server has seeded the admin, and
  a first rotation to \<open>Rotated2026!\<close> is accepted (200); its hash is stored on
  the config document. Afterwards \<^verbatim>\<open>POST /api/auth\<close>, which reads
  the \<open>Admin\<close> collection only, still accepts the old password and rejects the
  new one. The claim says the old password fails and the new one succeeds.
\<close>

theorem C1_rotation_not_seen_by_auth:
  "fst (fst (post_config_part_002 plain_bcrypt 2 seeded (password_only ''Rotated2026!'' None))) = 200
   \<and> stored_hash (snd (post_config_part_002 plain_bcrypt 2 seeded (password_only ''Rotated2026!'' None)))
       = Some (hash_fn plain_bcrypt ''Rotated2026!'' 2)
   \<and> fst (auth_server_js plain_bcrypt
        (snd (post_config_part_002 plain_bcrypt 2 seeded (password_only ''Rotated2026!'' None)))
        (admin_login ''UniUnity2025!'')) = (200, AuthJson True None)
   \<and> fst (auth_server_js plain_bcrypt
        (snd (post_config_part_002 plain_bcrypt 2 seeded (password_only ''Rotated2026!'' None)))
        (admin_login ''Rotated2026!'')) = (401, AuthJson False (Some ''Invalid credentials''))"
proof -
  have cfg: "Config seeded = None"
    by (simp add: seeded_def seed_admin_empty)
  have adm: "Admin seeded = [\<lparr> email = ''admin'', admin.password = hash_fn plain_bcrypt ''UniUnity2025!'' 1 \<rparr>]"
    by (simp add: seeded_def seed_admin_empty)
  have acc: "post_config_part_002 plain_bcrypt 2 seeded (password_only ''Rotated2026!'' None) =
     ((200, ConfigJson (fst (Config_findOneAndUpdate seeded
              (update_of (password_only ''Rotated2026!'' None) (Some (hash_fn plain_bcrypt ''Rotated2026!'' 2)))))),
       snd (Config_findOneAndUpdate seeded
              (update_of (password_only ''Rotated2026!'' None) (Some (hash_fn plain_bcrypt ''Rotated2026!'' 2)))))"
    by (rule post_config_part_002_accept) (simp_all add: password_only_def cfg)
  have old: "fst (auth_server_js plain_bcrypt seeded (admin_login ''UniUnity2025!'')) = (200, AuthJson True None)"
    by (simp add: auth_server_js_def Admin_findOne_email_def adm admin_login_def bcrypt_compare_def
        plain_bcrypt_def)
  have new: "fst (auth_server_js plain_bcrypt seeded (admin_login ''Rotated2026!''))
      = (401, AuthJson False (Some ''Invalid credentials''))"
    by (simp add: auth_server_js_def Admin_findOne_email_def adm admin_login_def bcrypt_compare_def
        plain_bcrypt_def)
  have status: "fst (fst (post_config_part_002 plain_bcrypt 2 seeded (password_only ''Rotated2026!'' None))) = 200"
    by (simp add: acc)
  have stored: "stored_hash (snd (post_config_part_002 plain_bcrypt 2 seeded (password_only ''Rotated2026!'' None)))
       = Some (hash_fn plain_bcrypt ''Rotated2026!'' 2)"
    by (simp add: acc stored_hash_findOneAndUpdate)
  show ?thesis
    by (intro conjI status stored) (simp_all only: auth_server_js_post_config old new)
qed

text \<open>
  The same for every hasher whose hashes verify their own password, every database and
  every request: against a freshly seeded store, authenticating as \<open>admin\<close>
  with \<open>UniUnity2025!\<close> succeeds, as the claim says; a config update, password
  rotation included, leaves the \<open>Admin\<close> collection as it was, so no rotation
  reaches the credential that authentication verifies.
\<close>

theorem seeded_login_and_rotation_frame:
  assumes "bcrypt_sound B"
  shows "fst (auth_server_js B (seed_admin B salt empty_store) (admin_login ''UniUnity2025!''))
           = (200, AuthJson True None)
       \<and> fst (auth_part_002 B (seed_admin B salt empty_store) (admin_login ''UniUnity2025!''))
           = (200, AuthJson True None)
       \<and> Admin (snd (post_config_part_002 B salt' s b)) = Admin s
       \<and> auth_server_js B (snd (post_config_part_002 B salt' s b)) u = auth_server_js B s u
       \<and> auth_part_002 B (snd (post_config_part_002 B salt' s b)) u = auth_part_002 B s u"
proof -
  from assms have ok: "compare_fn B ''UniUnity2025!'' (hash_fn B ''UniUnity2025!'' salt)"
    by (simp add: bcrypt_sound_def)
  have "fst (auth_server_js B (seed_admin B salt empty_store) (admin_login ''UniUnity2025!''))
           = (200, AuthJson True None)"
    using ok
    by (simp add: seed_admin_empty auth_server_js_def Admin_findOne_email_def admin_login_def
        bcrypt_compare_def)
  moreover have "fst (auth_part_002 B (seed_admin B salt empty_store) (admin_login ''UniUnity2025!''))
           = (200, AuthJson True None)"
    using ok
    by (simp add: seed_admin_empty auth_part_002_def Admin_findOne_email_def admin_login_def
        bcrypt_compare_def truthy_def)
  ultimately show ?thesis
    by (simp add: post_config_part_002_Admin auth_server_js_post_config auth_part_002_post_config)
qed

theorem seeded_login_and_rotation_frame_witness:
  "bcrypt_sound plain_bcrypt
   \<and> fst (auth_server_js plain_bcrypt seeded (admin_login ''UniUnity2025!'')) = (200, AuthJson True None)
   \<and> auth_server_js plain_bcrypt
        (snd (post_config_part_002 plain_bcrypt 2 seeded (password_only ''Rotated2026!'' None)))
        (admin_login ''Rotated2026!'')
      = auth_server_js plain_bcrypt seeded (admin_login ''Rotated2026!'')"
  using seeded_login_and_rotation_frame [OF plain_bcrypt_sound, of 1 2 seeded
      "password_only ''Rotated2026!'' None" "admin_login ''Rotated2026!''"]
  by (simp add: plain_bcrypt_sound seeded_def)

text \<open>
  Claim C5 on server.js 52-64: a request with the password missing is looked up and ends
  in the \<open>catch\<close> (500), one with an empty password is looked up and answered
  401. Neither is answered 400 before the lookup, as part_002 64-81 does.
\<close>

theorem C5_auth_server_js_looks_up_incomplete_request:
  "auth_server_js plain_bcrypt seeded \<lparr> username = Some ''admin'', auth_body.password = None \<rparr>
     = ((500, AuthJson False (Some ''Authentication error'')), [Admin_findOne (Some ''admin'')])
   \<and> auth_server_js plain_bcrypt seeded \<lparr> username = Some ''admin'', auth_body.password = Some [] \<rparr>
     = ((401, AuthJson False (Some ''Invalid credentials'')), [Admin_findOne (Some ''admin'')])"
  by (simp add: seeded_def seed_admin_empty auth_server_js_def Admin_findOne_email_def
      bcrypt_compare_def plain_bcrypt_def)

text \<open>
  The sibling handler, part_002 64-81: a request whose username or password is missing or
  empty is answered 400 and makes no call on the \<open>Admin\<close> collection.
\<close>

theorem auth_part_002_fails_closed:
  assumes "\<not> truthy (username b) \<or> \<not> truthy (auth_body.password b)"
  shows "auth_part_002 B s b
     = ((400, AuthJson False (Some ''Username and password are required'')), [])"
  using assms by (auto simp: auth_part_002_def)

theorem auth_part_002_fails_closed_witness:
  "\<not> truthy (auth_body.password \<lparr> username = Some ''admin'', auth_body.password = None \<rparr>)
   \<and> auth_part_002 plain_bcrypt seeded \<lparr> username = Some ''admin'', auth_body.password = None \<rparr>
     = ((400, AuthJson False (Some ''Username and password are required'')), [])"
  using auth_part_002_fails_closed [of "\<lparr> username = Some ''admin'', auth_body.password = None \<rparr>"
      plain_bcrypt seeded]
  by (simp add: truthy_def)

subsection \<open>Content Service\<close>

text \<open>
  Claim C6 on server.js 96-105: a request with no title and no content is stored and
  answered 200 with the new post; there is no 400, and a valid request is answered 200,
  not 201.
\<close>

theorem C6_post_blogs_server_js_accepts_empty_post:
  "fst (post_blogs_server_js 1000 7 empty_store no_blog_fields)
     = (200, BlogJson 7 \<lparr> blog.title = None, blog.content = None, blog.seoTitle = None,
                            blog.seoDescription = None, createdAt = 1000, status = ''published'' \<rparr>)
   \<and> Blog (snd (post_blogs_server_js 1000 7 empty_store no_blog_fields)) 7 \<noteq> None
   \<and> fst (fst (post_blogs_server_js 1000 7 empty_store first_post)) = 200"
  by (simp add: post_blogs_server_js_def Blog_save_def new_Blog_def empty_store_def
      no_blog_fields_def first_post_def Let_def)

text \<open>
  The sibling handler, part_002 117-130: a request whose title or content is missing or
  empty is answered 400 and stores nothing; any other request, given a fresh
  \<open>_id\<close>, is answered 201 with the stored post, whose status is
  \<open>published\<close> and whose \<open>createdAt\<close> is the time of the request.
\<close>

theorem post_blogs_part_002_validates:
  "(\<not> truthy (blog_body.title b) \<or> \<not> truthy (blog_body.content b) \<longrightarrow>
      post_blogs_part_002 now oid s b = ((400, MessageJson ''Title and content are required''), s))
   \<and> (truthy (blog_body.title b) \<and> truthy (blog_body.content b) \<and> Blog s oid = None \<longrightarrow>
      post_blogs_part_002 now oid s b
        = ((201, BlogJson oid (new_Blog now b)), s\<lparr>Blog := (Blog s)(oid \<mapsto> new_Blog now b)\<rparr>)
      \<and> status (new_Blog now b) = ''published'' \<and> createdAt (new_Blog now b) = now
      \<and> blog.title (new_Blog now b) = blog_body.title b
      \<and> blog.content (new_Blog now b) = blog_body.content b)"
  by (auto simp: post_blogs_part_002_def Blog_save_def new_Blog_def Let_def)

theorem post_blogs_part_002_validates_witness:
  "post_blogs_part_002 1000 7 empty_store no_blog_fields
     = ((400, MessageJson ''Title and content are required''), empty_store)
   \<and> fst (post_blogs_part_002 1000 7 empty_store first_post) = (201, BlogJson 7 (new_Blog 1000 first_post))
   \<and> status (new_Blog 1000 first_post) = ''published''"
  using post_blogs_part_002_validates [of no_blog_fields 1000 7 empty_store]
    post_blogs_part_002_validates [of first_post 1000 7 empty_store]
  by (simp add: truthy_def no_blog_fields_def first_post_def empty_store_def)

text \<open>
  Claim C7 on part_000 92: deleting an id that no post has is answered 200
  \<^verbatim>\<open>{ message: 'Blog deleted' }\<close>, the answer of a deletion that
  removed a post.
\<close>

theorem C7_delete_blog_part_000_silent_success:
  "Blog empty_store 7 = None
   \<and> fst (delete_blog_part_000 empty_store 7) = (200, MessageJson ''Blog deleted'')"
  by (simp add: delete_blog_part_000_def Blog_findByIdAndDelete_def empty_store_def)

text \<open>
  The sibling handler, server.js 119-128: deleting an id that no post has is answered 404
  and changes nothing; deleting an existing post is answered 200, and deleting it again
  404.
\<close>

theorem delete_blog_server_js_not_found:
  "(Blog s oid = None \<longrightarrow> delete_blog_server_js s oid = ((404, ErrorJson ''Blog not found''), s))
   \<and> (Blog s oid \<noteq> None \<longrightarrow>
        fst (delete_blog_server_js s oid) = (200, MessageJson ''Blog deleted'')
        \<and> Blog (snd (delete_blog_server_js s oid)) = (Blog s)(oid := None)
        \<and> fst (delete_blog_server_js (snd (delete_blog_server_js s oid)) oid)
            = (404, ErrorJson ''Blog not found''))"
proof -
  have "Blog s oid = None \<Longrightarrow> s\<lparr>Blog := (Blog s)(oid := None)\<rparr> = s"
    by (simp add: fun_upd_idem)
  then show ?thesis
    by (auto simp: delete_blog_server_js_def Blog_findByIdAndDelete_def)
qed

theorem delete_blog_server_js_not_found_witness:
  "fst (delete_blog_server_js (snd (post_blogs_server_js 1000 7 empty_store first_post)) 7)
     = (200, MessageJson ''Blog deleted'')
   \<and> fst (delete_blog_server_js
          (snd (delete_blog_server_js (snd (post_blogs_server_js 1000 7 empty_store first_post)) 7)) 7)
     = (404, ErrorJson ''Blog not found'')
   \<and> fst (delete_blog_server_js empty_store 7) = (404, ErrorJson ''Blog not found'')"
  using delete_blog_server_js_not_found [of "snd (post_blogs_server_js 1000 7 empty_store first_post)" 7]
    delete_blog_server_js_not_found [of empty_store 7]
  by (simp add: post_blogs_server_js_def Blog_save_def empty_store_def Let_def)

subsection \<open>Config Service\<close>

text \<open>
  Claim C2 on server.js 139-146: with no config document the answer is the empty object
  \<^verbatim>\<open>{}\<close>, with none of the five keys.
\<close>

theorem C2_get_config_server_js_empty_object:
  "Config empty_store = None \<and> get_config_server_js empty_store = (200, EmptyObject)"
  by (simp add: get_config_server_js_def empty_store_def)

text \<open>
  The sibling handler, part_001 45-48: with no config document the answer is the constant
  \<open>defaultConfig\<close>: its title is \<open>UniUnity.space\<close> and its five
  top-level keys are present.
\<close>

theorem get_config_part_001_default:
  assumes "Config s = None"
  shows "get_config_part_001 s = (200, ConfigJson defaultConfig_part_001)
       \<and> site_config.title defaultConfig_part_001 = Some ''UniUnity.space''
       \<and> favicon defaultConfig_part_001 \<noteq> None
       \<and> map_option heading (banner defaultConfig_part_001) = Some (Some ''Future-Proof Growth'')
       \<and> seo defaultConfig_part_001 \<noteq> None
       \<and> homepageAd defaultConfig_part_001 \<noteq> None"
  using assms by (simp add: get_config_part_001_def defaultConfig_part_001_def)

theorem get_config_part_001_default_witness:
  "Config empty_store = None
   \<and> get_config_part_001 empty_store = (200, ConfigJson defaultConfig_part_001)"
  using get_config_part_001_default [of empty_store]
  by (simp add: empty_store_def)



text \<open>
  Claim C4 on server.js 148-160: the config document holds the hash of
  \<open>secret\<close>; an update that carries only a title replaces it by a fresh hash
  of the empty string, which \<open>secret\<close> does not verify against and the empty
  password does.
\<close>

theorem C4_post_config_server_js_overwrites_hash:
  "stored_hash configured = Some ''#$secret''
   \<and> adminPassword (title_only ''New title'') = None
   \<and> fst (fst (post_config_server_js plain_bcrypt 2 configured (title_only ''New title''))) = 200
   \<and> stored_hash (snd (post_config_server_js plain_bcrypt 2 configured (title_only ''New title'')))
       = Some ''##$''
   \<and> \<not> compare_fn plain_bcrypt ''secret'' ''##$''
   \<and> compare_fn plain_bcrypt [] ''##$''"
  by (simp add: post_config_server_js_def bcrypt_hash_def or_empty_def title_only_def
      stored_hash_findOneAndUpdate split_beta)
     (simp add: stored_hash_def configured_def plain_bcrypt_def numeral_2_eq_2)

text \<open>
  The sibling handler, part_002 171-189: an update without a new admin password (missing
  or empty) is answered 200 and keeps the stored hash; each other top-level field takes
  the value the request supplies and keeps its own where the request supplies none.
\<close>

theorem post_config_part_002_retains_hash:
  assumes "\<not> truthy (adminPassword b)"
  shows "fst (fst (post_config_part_002 B salt s b)) = 200
       \<and> stored_hash (snd (post_config_part_002 B salt s b)) = stored_hash s
       \<and> site_config.title (current_fields (snd (post_config_part_002 B salt s b)))
           = assign (site_config.title b) (site_config.title (current_fields s))
       \<and> favicon (current_fields (snd (post_config_part_002 B salt s b)))
           = assign (favicon b) (favicon (current_fields s))
       \<and> banner (current_fields (snd (post_config_part_002 B salt s b)))
           = assign (banner b) (banner (current_fields s))
       \<and> homepageAd (current_fields (snd (post_config_part_002 B salt s b)))
           = assign (homepageAd b) (homepageAd (current_fields s))
       \<and> adminUsername (current_fields (snd (post_config_part_002 B salt s b)))
           = assign (adminUsername b) (adminUsername (current_fields s))"
  unfolding post_config_part_002_keep [OF assms]
  by (simp add: stored_hash_findOneAndUpdate split: option.splits)
     (simp add: Config_findOneAndUpdate_def update_of_def Let_def current_fields_def)

theorem post_config_part_002_retains_hash_witness:
  "\<not> truthy (adminPassword (title_only ''New title''))
   \<and> stored_hash (snd (post_config_part_002 plain_bcrypt 2 configured (title_only ''New title'')))
       = Some ''#$secret''"
  using post_config_part_002_retains_hash [of "title_only ''New title''" plain_bcrypt 2 configured]
  by (simp add: title_only_def truthy_def stored_hash_def configured_def plain_bcrypt_def)

text \<open>
  Claim C8 (part_002 171-189 and 161-169): for every state of the config collection, the
  update \<^verbatim>\<open>{ title: x }\<close> is answered 200, and the
  \<open>get\<close> that follows returns the document of before (no field, where there
  was none) with its title set to \<open>x\<close> and every other field, the stored
  password hash included, as it was.
\<close>

theorem C8_title_update_round_trip:
  "fst (fst (post_config_part_002 B salt s (title_only x))) = 200
   \<and> get_config_part_002 (snd (post_config_part_002 B salt s (title_only x)))
       = (200, ConfigJson ((current_fields s)\<lparr>site_config.title := Some x\<rparr>))"
proof -
  have no_pw: "\<not> truthy (adminPassword (title_only x))"
    by (simp add: title_only_def truthy_def)
  have "fst (Config_findOneAndUpdate s (update_of (title_only x) (stored_hash s)))
      = (current_fields s)\<lparr>site_config.title := Some x\<rparr>"
    by (cases "Config s")
       (simp_all add: Config_findOneAndUpdate_def update_of_def title_only_def assign_def Let_def
          stored_hash_def current_fields_def no_fields_def split: option.splits)
  moreover have "Config (snd (Config_findOneAndUpdate s u)) = Some (fst (Config_findOneAndUpdate s u))" for u
    by (simp add: Config_findOneAndUpdate_def Let_def)
  ultimately show ?thesis
    unfolding post_config_part_002_keep [OF no_pw]
    by (simp add: get_config_part_002_def)
qed

theorem C8_title_update_round_trip_witness:
  "get_config_part_002 (snd (post_config_part_002 plain_bcrypt 2 configured (title_only ''X'')))
     = (200, ConfigJson
         \<lparr> site_config.title = Some ''X'', favicon = Some ''/favicon.ico'',
           banner = Some \<lparr> heading = Some ''Welcome'', subtext = None \<rparr>,
           seo = None, homepageAd = None, adminUsername = Some ''root'',
           adminPassword = Some ''#$secret'' \<rparr>)
   \<and> get_config_part_002 (snd (post_config_part_002 plain_bcrypt 2 empty_store (title_only ''X'')))
     = (200, ConfigJson (no_fields\<lparr>site_config.title := Some ''X''\<rparr>))"
  using C8_title_update_round_trip [of plain_bcrypt 2 configured "''X''"]
    C8_title_update_round_trip [of plain_bcrypt 2 empty_store "''X''"]
  by (simp add: current_fields_def configured_def empty_store_def plain_bcrypt_def)

subsection \<open>Client State Store\<close>

text \<open>
  Claim C9 (part_003 818-829): when the request of \<open>updateConfig\<close> resolves,
  the local config is the previous local config overridden key by key with the supplied
  fields (a supplied key takes the supplied value as a whole, any other key keeps its
  own), and the resulting state is the one any other resolved response would give: the
  response body is not read.
\<close>

theorem C9_updateConfig_local_merge:
  assumes "axios_post (config st ++ cfg) = Resolved r"
  shows "config (updateConfig axios_post st cfg) = config st ++ cfg
       \<and> (\<forall>k. config (updateConfig axios_post st cfg) k
              = (case cfg k of Some v \<Rightarrow> Some v | None \<Rightarrow> config st k))
       \<and> updateConfig axios_post st cfg = updateConfig (\<lambda>body. Resolved r') st cfg
       \<and> blogPosts (updateConfig axios_post st cfg) = blogPosts st
       \<and> isAuthenticated (updateConfig axios_post st cfg) = isAuthenticated st"
proof -
  have settled: "updateConfig f st cfg = st\<lparr>config := config st ++ cfg, loading := False, error := None\<rparr>"
    if "f (config st ++ cfg) = Resolved x" for f x
    using that by (simp add: updateConfig_def Let_def)
  have "(config st ++ cfg) k = (case cfg k of Some v \<Rightarrow> Some v | None \<Rightarrow> config st k)" for k
    by (simp add: map_add_def split: option.splits)
  then show ?thesis
    using settled [of axios_post r] settled [of "\<lambda>body. Resolved r'" r'] assms
    by simp
qed

theorem C9_updateConfig_local_merge_witness:
  "config (updateConfig (\<lambda>body. Resolved (JObj [(''title'', JStr ''Server title'')]))
            local_state [''title'' \<mapsto> JStr ''X'']) ''title'' = Some (JStr ''X'')
   \<and> config (updateConfig (\<lambda>body. Resolved (JObj [(''title'', JStr ''Server title'')]))
            local_state [''title'' \<mapsto> JStr ''X'']) ''favicon'' = Some (JStr ''/favicon.ico'')"
proof -
  have "config (updateConfig (\<lambda>body. Resolved (JObj [(''title'', JStr ''Server title'')]))
            local_state [''title'' \<mapsto> JStr ''X''])
      = config local_state ++ [''title'' \<mapsto> JStr ''X'']"
    by (rule C9_updateConfig_local_merge [THEN conjunct1]) (rule refl)
  then show ?thesis by (simp add: local_state_def)
qed

text \<open>
  Claim C10 (part_003 863-875): when the request of \<open>deleteBlogPost\<close>
  resolves, the local list is the previous list, in order, without the entries whose
  \<open>id\<close> property is the string passed; an entry without an \<open>id\<close>
  property stays, whatever its \<open>_id\<close> is, and a list of such entries is left
  as it was.
\<close>

theorem C10_deleteBlogPost_local_filter:
  assumes "axios_delete i = Resolved r"
  shows "blogPosts (deleteBlogPost axios_delete st i)
           = filter (\<lambda>p. p ''id'' \<noteq> Some (JStr i)) (blogPosts st)
       \<and> (\<forall>p \<in> set (blogPosts st). p ''id'' = None \<longrightarrow>
              p \<in> set (blogPosts (deleteBlogPost axios_delete st i)))
       \<and> ((\<forall>p \<in> set (blogPosts st). p ''id'' = None) \<longrightarrow>
              blogPosts (deleteBlogPost axios_delete st i) = blogPosts st)"
proof -
  have "id_differs i = (\<lambda>p. p ''id'' \<noteq> Some (JStr i))"
    by (auto simp: id_differs_def fun_eq_iff split: option.splits jsval.splits)
  then have eq: "blogPosts (deleteBlogPost axios_delete st i)
           = filter (\<lambda>p. p ''id'' \<noteq> Some (JStr i)) (blogPosts st)"
    using assms by (simp add: deleteBlogPost_def Let_def)
  have "filter (\<lambda>p. p ''id'' \<noteq> Some (JStr i)) xs = xs" if "\<forall>p \<in> set xs. p ''id'' = None" for xs
    using that by (induction xs) auto
  with eq show ?thesis by auto
qed

theorem C10_deleteBlogPost_local_filter_witness:
  "blogPosts (deleteBlogPost (\<lambda>i. Resolved (JObj [(''message'', JStr ''Blog deleted'')]))
       local_state ''a1'')
     = [[''_id'' \<mapsto> JStr ''a1'', ''title'' \<mapsto> JStr ''From Mongo''],
        [''id'' \<mapsto> JStr ''b2'', ''title'' \<mapsto> JStr ''Other'']]"
  using C10_deleteBlogPost_local_filter [of "\<lambda>i. Resolved (JObj [(''message'', JStr ''Blog deleted'')])"
      "''a1''" "JObj [(''message'', JStr ''Blog deleted'')]" local_state]
  by (simp add: local_state_def)

end
